theory Spec2Isabelle
  imports
    Main
    "HOL-Library.Word"
    "HOL-Library.DAList"
    "HOL-Library.Char_ord"
    "HOL-Library.List_Lexorder"
begin

section \<open>The build controller of internal/engine/buildcontroller.go\<close>

text \<open>
  A shallow embedding of \<^verbatim>\<open>internal/engine/buildcontroller.go\<close>: the admission
  decision \<^verbatim>\<open>needsBuild\<close>, the subscriber entry point \<^verbatim>\<open>OnChange\<close> with the task it
  launches, the log line of \<^verbatim>\<open>logBuildEntry\<close>, the target list of \<^verbatim>\<open>buildTargets\<close> and
  the build-state assembly of \<^verbatim>\<open>buildStateSet\<close>.

  The file imports the packages \<^verbatim>\<open>store\<close>, \<^verbatim>\<open>model\<close>, \<^verbatim>\<open>buildcontrol\<close>, \<^verbatim>\<open>ospath\<close> and
  \<^verbatim>\<open>logger\<close>, whose sources are not part of the development. What the controller reads
  from them is kept abstract: a method's result is a field of the record that stands for
  its receiver, and a package function is a parameter.
\<close>

subsection \<open>Basic types\<close>

text \<open>Go's \<^verbatim>\<open>int\<close> on a 64-bit platform: \<open>+\<close> wraps, \<open>sint\<close> reads the signed value.\<close>

type_synonym int64 = "64 word"

text \<open>An instant of \<^verbatim>\<open>time.Time\<close>; \<^verbatim>\<open>t.After(u)\<close> is \<open>u < t\<close>.\<close>

type_synonym Time = int

type_synonym ManifestName = string
type_synonym SpanID = string

text \<open>
  Modelled from the spec: \<^verbatim>\<open>model.BuildReason\<close> is absent; the spec gives a reason by
  its text ("triggered manually"), which is what \<^verbatim>\<open>%s\<close> prints.
\<close>

type_synonym BuildReason = string

text \<open>A non-nil Go \<^verbatim>\<open>error\<close> with its message; \<open>None\<close> of \<open>error option\<close> is \<^verbatim>\<open>nil\<close>.\<close>

datatype error = Error string

text \<open>Values the controller only passes on, never inspects.\<close>

datatype BuildResult = MkBuildResult nat
datatype ContainerInfo = MkContainerInfo nat
datatype K8sRuntime = MkK8sRuntime nat
datatype DCRuntime = MkDCRuntime nat

subsection \<open>Targets\<close>

text \<open>
  Modelled from the spec: the package \<^verbatim>\<open>model\<close> is absent. A target spec is one of the
  variants ImageTarget, DockerComposeTarget, K8sTarget, LocalTarget; each exposes a
  stable identity (\<^verbatim>\<open>ID\<close>, carrying a type tag) and a \<^verbatim>\<open>Validate\<close> check. The tag of an
  identity is one of the four target types or any other tag.
\<close>

datatype TargetType =
    TargetTypeImage
  | TargetTypeDockerCompose
  | TargetTypeK8s
  | TargetTypeLocal
  | TargetTypeOther string

record TargetID =
  Type :: TargetType
  IDName :: string

text \<open>
  Modelled from the spec: the body of a target. Both methods read the target only, so
  their results are data of the target: \<open>ID\<close> is what \<^verbatim>\<open>ID()\<close> returns and \<open>Validate\<close>
  what \<^verbatim>\<open>Validate()\<close> returns.
\<close>

record Target =
  ID :: TargetID
  Validate :: "error option"

type_synonym ImageTarget = Target
type_synonym DockerComposeTarget = Target
type_synonym K8sTarget = Target
type_synonym LocalTarget = Target

text \<open>The interface \<^verbatim>\<open>model.TargetSpec\<close>: a value tagged with its dynamic type.\<close>

datatype TargetSpec =
    ImageTargetSpec ImageTarget
  | DockerComposeTargetSpec DockerComposeTarget
  | K8sTargetSpec K8sTarget
  | LocalTargetSpec LocalTarget

fun specBody :: "TargetSpec \<Rightarrow> Target" where
  "specBody (ImageTargetSpec t) = t"
| "specBody (DockerComposeTargetSpec t) = t"
| "specBody (K8sTargetSpec t) = t"
| "specBody (LocalTargetSpec t) = t"

definition specID :: "TargetSpec \<Rightarrow> TargetID" where
  "specID spec = ID (specBody spec)"

definition specValidate :: "TargetSpec \<Rightarrow> error option" where
  "specValidate spec = Validate (specBody spec)"

subsection \<open>Manifests and their state\<close>

text \<open>
  Modelled from the spec: \<^verbatim>\<open>model.Manifest\<close> is absent. The controller reads the name,
  the image targets and, through methods, the deploy target: \<open>IsDC\<close>, \<open>IsK8s\<close>, \<open>IsLocal\<close>
  are the results of the three variant tests, \<open>DockerComposeTarget\<close>, \<open>K8sTarget\<close>,
  \<open>LocalTarget\<close> the results of the three accessors.
\<close>

record Manifest =
  Name :: ManifestName
  ImageTargets :: "ImageTarget list"
  IsDC :: bool
  DockerComposeTarget :: DockerComposeTarget
  IsK8s :: bool
  K8sTarget :: K8sTarget
  IsLocal :: bool
  LocalTarget :: LocalTarget

text \<open>
  Modelled from the spec: \<^verbatim>\<open>store.BuildRecord\<close> is absent. \<open>StartTime\<close> is the start of
  the last build and \<open>Empty\<close> the result of \<^verbatim>\<open>Empty()\<close>: no build has completed.
\<close>

record BuildRecord =
  StartTime :: Time
  Empty :: bool

text \<open>
  Modelled from the spec: \<^verbatim>\<open>store.BuildStatus\<close> is absent. The pending file changes
  are a Go map from file path to change time: its keys are unique, and \<^verbatim>\<open>range\<close> visits
  its entries in an order the language leaves open. The entries are held in the order
  of one such visit, as a list with distinct keys.
\<close>

record BuildStatus =
  PendingFileChanges :: "(string, Time) alist"
  LastSuccessfulResult :: BuildResult

text \<open>
  Modelled from the spec: \<^verbatim>\<open>store.ManifestState\<close> is absent. \<open>NeedsRebuildFromCrash\<close>
  and \<open>ConfigFilesThatCausedChange\<close> are fields of the source's struct; the other fields
  are the results of the methods \<^verbatim>\<open>StartedFirstBuild()\<close>, \<^verbatim>\<open>LastBuild()\<close>,
  \<^verbatim>\<open>BuildStatus(id)\<close> (the field \<open>BuildStatusOf\<close>), \<^verbatim>\<open>K8sRuntimeState()\<close> and
  \<^verbatim>\<open>DCRuntimeState()\<close>.
\<close>

record ManifestState =
  StartedFirstBuild :: bool
  LastBuild :: BuildRecord
  NeedsRebuildFromCrash :: bool
  ConfigFilesThatCausedChange :: "string list"
  BuildStatusOf :: "TargetID \<Rightarrow> BuildStatus"
  K8sRuntimeState :: K8sRuntime
  DCRuntimeState :: DCRuntime

text \<open>
  Modelled from the spec: \<^verbatim>\<open>store.ManifestTarget\<close> is absent: the candidate of the
  selection oracle, a manifest with its state; \<open>NextBuildReason\<close> is the result of the
  method of that name.
\<close>

record ManifestTarget =
  Manifest :: Manifest
  State :: ManifestState
  NextBuildReason :: BuildReason

subsection \<open>Build states\<close>

text \<open>
  Modelled from the spec: \<^verbatim>\<open>store.BuildState\<close> is absent: the last successful result,
  the list of changed file paths, the running containers or the error met while
  discovering them, and the force-rebuild flag.
\<close>

record BuildState =
  LastResult :: BuildResult
  ChangedFiles :: "string list"
  RunningContainers :: "ContainerInfo list"
  RunningContainerError :: "error option"
  NeedsForceUpdate :: bool

text \<open>
  Modelled from the spec: \<^verbatim>\<open>store.NewBuildState\<close> is absent: a BuildState made from the
  last successful result and the changed-file list, nothing else set.
\<close>

definition NewBuildState :: "BuildResult \<Rightarrow> string list \<Rightarrow> BuildState" where
  "NewBuildState res files =
     \<lparr>LastResult = res, ChangedFiles = files, RunningContainers = [],
      RunningContainerError = None, NeedsForceUpdate = False\<rparr>"

text \<open>
  Modelled from the spec: the three \<^verbatim>\<open>With...\<close> methods of \<^verbatim>\<open>store.BuildState\<close> are
  absent: each returns the state with one part attached.
\<close>

definition WithRunningContainers :: "BuildState \<Rightarrow> ContainerInfo list \<Rightarrow> BuildState" where
  "WithRunningContainers bs cInfos = bs\<lparr>RunningContainers := cInfos\<rparr>"

definition WithRunningContainerError :: "BuildState \<Rightarrow> error \<Rightarrow> BuildState" where
  "WithRunningContainerError bs err = bs\<lparr>RunningContainerError := Some err\<rparr>"

definition WithNeedsForceUpdate :: "BuildState \<Rightarrow> bool \<Rightarrow> BuildState" where
  "WithNeedsForceUpdate bs flag = bs\<lparr>NeedsForceUpdate := flag\<rparr>"

text \<open>\<^verbatim>\<open>store.BuildStateSet\<close> and \<^verbatim>\<open>store.BuildResultSet\<close>: Go maps keyed by target identity.\<close>

type_synonym BuildStateSet = "TargetID \<rightharpoonup> BuildState"
type_synonym BuildResultSet = "TargetID \<rightharpoonup> BuildResult"

subsection \<open>Functions of other packages\<close>

text \<open>
  The functions of \<^verbatim>\<open>store\<close> and \<^verbatim>\<open>ospath\<close> that the controller calls, as parameters.
  \<open>RunningContainersForTargetForOnePod\<close> returns Go's pair of a value and an error;
  \<open>FilesChanged\<close> is the method of that name of a BuildStateSet.
\<close>

record Externals =
  RunningContainersForTargetForOnePod ::
    "ImageTarget \<Rightarrow> K8sRuntime \<Rightarrow> ContainerInfo list \<times> error option"
  RunningContainersForDC :: "DCRuntime \<Rightarrow> ContainerInfo list"
  FilesChanged :: "BuildStateSet \<Rightarrow> string list"
  FormatFileChangeList :: "string list \<Rightarrow> string"

subsection \<open>buildTargets\<close>

text \<open>The loop over the image targets appends each one to the result.\<close>

definition buildTargets :: "Manifest \<Rightarrow> TargetSpec list" where
  "buildTargets manifest =
     (let result = foldl (\<lambda>result iTarget. result @ [ImageTargetSpec iTarget]) []
                     (ImageTargets manifest)
      in if IsDC manifest then result @ [DockerComposeTargetSpec (DockerComposeTarget manifest)]
         else if IsK8s manifest then result @ [K8sTargetSpec (K8sTarget manifest)]
         else if IsLocal manifest then result @ [LocalTargetSpec (LocalTarget manifest)]
         else result)"

subsection \<open>buildStateSet\<close>

text \<open>
  One round of the loop over the pending file changes of a target: the file is
  appended, and the flag \<^verbatim>\<open>anyFilesChangedSinceLastBuild\<close> is set when the last build is
  empty or the change is after its start.
\<close>

definition pendingStep ::
  "ManifestState \<Rightarrow> string list \<times> bool \<Rightarrow> string \<times> Time \<Rightarrow> string list \<times> bool" where
  "pendingStep ms acc entry =
     (case acc of (filesChanged, anyChanged) \<Rightarrow>
      case entry of (file, ts) \<Rightarrow>
        (filesChanged @ [file],
         if Empty (LastBuild ms) \<or> StartTime (LastBuild ms) < ts then True else anyChanged))"

text \<open>
  The running containers are attached when the manifest is not rebuilding from a crash
  and the spec is an image target: the two tests \<^verbatim>\<open>IsK8s\<close> and \<^verbatim>\<open>IsDC\<close> follow each other.
\<close>

definition attachContainers ::
  "Externals \<Rightarrow> Manifest \<Rightarrow> ManifestState \<Rightarrow> TargetSpec \<Rightarrow> BuildState \<Rightarrow> BuildState" where
  "attachContainers x manifest ms spec buildState =
     (if \<not> NeedsRebuildFromCrash ms then
        (case spec of
           ImageTargetSpec iTarget \<Rightarrow>
             (let bs1 =
                (if IsK8s manifest then
                   (case RunningContainersForTargetForOnePod x iTarget (K8sRuntimeState ms) of
                      (cInfos, Some err) \<Rightarrow> WithRunningContainerError buildState err
                    | (cInfos, None) \<Rightarrow> WithRunningContainers buildState cInfos)
                 else buildState)
              in if IsDC manifest
                 then WithRunningContainers bs1 (RunningContainersForDC x (DCRuntimeState ms))
                 else bs1)
         | _ \<Rightarrow> buildState)
      else buildState)"

text \<open>
  One round of the loop over the specs, on the pair of the result map and the flag.
  A spec whose identity is not of type Image, DockerCompose or Local is skipped.
\<close>

definition buildStateSetStep ::
  "Externals \<Rightarrow> Manifest \<Rightarrow> ManifestState \<Rightarrow> BuildStateSet \<times> bool \<Rightarrow> TargetSpec
     \<Rightarrow> BuildStateSet \<times> bool" where
  "buildStateSetStep x manifest ms acc spec =
     (case acc of (result, anyChanged) \<Rightarrow>
      let tid = specID spec in
      if Type tid \<noteq> TargetTypeImage \<and> Type tid \<noteq> TargetTypeDockerCompose
           \<and> Type tid \<noteq> TargetTypeLocal
      then (result, anyChanged)
      else
        let status = BuildStatusOf ms tid;
            collected = foldl (pendingStep ms) ([], anyChanged)
                          (DAList.impl_of (PendingFileChanges status));
            filesChanged = sort (fst collected);
            buildState = NewBuildState (LastSuccessfulResult status) filesChanged;
            buildState' = attachContainers x manifest ms spec buildState
        in (result(tid \<mapsto> buildState'), snd collected))"

definition buildStateSet ::
  "Externals \<Rightarrow> Manifest \<Rightarrow> TargetSpec list \<Rightarrow> ManifestState \<Rightarrow> BuildStateSet" where
  "buildStateSet x manifest specs ms =
     (case foldl (buildStateSetStep x manifest ms) (Map.empty, False) specs of
        (result, anyFilesChangedSinceLastBuild) \<Rightarrow>
          if \<not> NeedsRebuildFromCrash ms \<and> \<not> anyFilesChangedSinceLastBuild
          then (\<lambda>k. map_option (\<lambda>v. WithNeedsForceUpdate v True) (result k))
          else result)"

subsection \<open>Formatting\<close>

text \<open>The verb \<^verbatim>\<open>%d\<close> of Go's \<^verbatim>\<open>fmt\<close>: a signed integer in decimal.\<close>

definition digitChar :: "nat \<Rightarrow> char" where
  "digitChar d = char_of (48 + d)"

fun natDigits :: "nat \<Rightarrow> string" where
  "natDigits n =
     (if n < 10 then [digitChar n] else natDigits (n div 10) @ [digitChar (n mod 10)])"

declare natDigits.simps [simp del]

definition fmtInt :: "int \<Rightarrow> string" where
  "fmtInt i = (if i < 0 then CHR ''-'' # natDigits (nat (- i)) else natDigits (nat i))"

text \<open>The delimiter of the log line, U+2022, as the three bytes of its UTF-8 form.\<close>

definition delimiter :: string where
  "delimiter = [CHR 0xE2, CHR 0x80, CHR 0xA2]"

definition SpanIDForBuildLog :: "int64 \<Rightarrow> SpanID" where
  "SpanIDForBuildLog buildCount = ''build:'' @ fmtInt (sint buildCount)"

subsection \<open>The controller and the shared state\<close>

text \<open>
  The build engine \<open>b\<close> is the capability \<^verbatim>\<open>BuildAndDeploy\<close>, given the targets and the
  build states and returning Go's pair of a result set and an error.
\<close>

record BuildController =
  b :: "TargetSpec list \<Rightarrow> BuildStateSet \<Rightarrow> BuildResultSet \<times> error option"
  buildsStartedCount :: int64
  disabledForTesting :: bool

text \<open>
  The struct \<^verbatim>\<open>buildEntry\<close>. Its field \<^verbatim>\<open>buildStateSet\<close> is \<open>entryBuildStateSet\<close> here,
  since the function of the same name keeps the name.
\<close>

record buildEntry =
  name :: ManifestName
  targets :: "TargetSpec list"
  entryBuildStateSet :: BuildStateSet
  filesChanged :: "string list"
  buildReason :: BuildReason
  firstBuild :: bool
  spanID :: SpanID

text \<open>Go's zero value \<^verbatim>\<open>buildEntry{}\<close>.\<close>

definition emptyBuildEntry :: buildEntry where
  "emptyBuildEntry =
     \<lparr>name = [], targets = [], entryBuildStateSet = Map.empty, filesChanged = [],
      buildReason = [], firstBuild = False, spanID = []\<rparr>"

text \<open>
  Modelled from the spec: \<^verbatim>\<open>store.EngineState\<close> is absent. The controller reads the
  field \<open>StartedBuildCount\<close> and the result of the method \<^verbatim>\<open>AvailableBuildSlots()\<close>; every
  other part of the state is the extension of the record, which the selection oracle
  may read.
\<close>

record EngineState =
  StartedBuildCount :: int64
  AvailableBuildSlots :: int64

subsection \<open>needsBuild\<close>

text \<open>
  The controller is passed in and returned, since an admission increments its counter.
  The selection oracle \<^verbatim>\<open>buildcontrol.NextTargetToBuild\<close> is a parameter; \<open>None\<close> is its
  \<^verbatim>\<open>nil\<close>. A candidate carries its manifest and its state, as the oracle's contract has
  it. The read lock taken at entry and released at exit is not part of the model.
\<close>

definition needsBuild ::
  "Externals \<Rightarrow> ('e EngineState_scheme \<Rightarrow> ManifestTarget option) \<Rightarrow> BuildController
     \<Rightarrow> 'e EngineState_scheme \<Rightarrow> BuildController \<times> buildEntry \<times> bool" where
  "needsBuild x NextTargetToBuild c state =
     (if buildsStartedCount c \<noteq> StartedBuildCount state then (c, emptyBuildEntry, False)
      else if sint (AvailableBuildSlots state) < 1 then (c, emptyBuildEntry, False)
      else
        (case NextTargetToBuild state of
           None \<Rightarrow> (c, emptyBuildEntry, False)
         | Some mt \<Rightarrow>
             (let c' = c\<lparr>buildsStartedCount := buildsStartedCount c + 1\<rparr>;
                  ms = State mt;
                  manifest = Manifest mt;
                  first = \<not> StartedFirstBuild ms;
                  reason = NextBuildReason mt;
                  tgts = buildTargets manifest;
                  bss = buildStateSet x manifest tgts ms
              in (c',
                  \<lparr>name = Name manifest,
                   targets = tgts,
                   entryBuildStateSet = bss,
                   filesChanged = ConfigFilesThatCausedChange ms @ FilesChanged x bss,
                   buildReason = reason,
                   firstBuild = first,
                   spanID = SpanIDForBuildLog (buildsStartedCount c')\<rparr>,
                  True))))"

text \<open>
  A run of calls of \<^verbatim>\<open>needsBuild\<close> on one controller, each call with the shared state
  and the oracle of its moment: the controller is threaded through the calls, and the
  entries admitted are collected in the order of their admission.
\<close>

fun runNeedsBuild ::
  "BuildController
     \<Rightarrow> (Externals \<times> ('e EngineState_scheme \<Rightarrow> ManifestTarget option)
           \<times> 'e EngineState_scheme) list
     \<Rightarrow> BuildController \<times> buildEntry list" where
  "runNeedsBuild c [] = (c, [])"
| "runNeedsBuild c ((x, NextTargetToBuild, state) # calls) =
     (case needsBuild x NextTargetToBuild c state of
        (c', entry, ok) \<Rightarrow>
          (case runNeedsBuild c' calls of
             (c'', entries) \<Rightarrow> (c'', if ok then entry # entries else entries)))"

subsection \<open>logBuildEntry and buildAndDeploy\<close>

text \<open>The message that \<^verbatim>\<open>logBuildEntry\<close> hands to the logger's \<^verbatim>\<open>Infof\<close>.\<close>

definition logBuildEntry :: "Externals \<Rightarrow> buildEntry \<Rightarrow> string" where
  "logBuildEntry x entry =
     (let changedFiles = filesChanged entry in
      if firstBuild entry then ''Initial Build '' @ delimiter @ '' '' @ name entry
      else if length changedFiles > 0 then
        (let t = (if length changedFiles > 1 then ''Files'' else ''File'') in
         fmtInt (int (length changedFiles)) @ '' '' @ t @ '' Changed: ''
           @ FormatFileChangeList x changedFiles @ '' '' @ delimiter @ '' '' @ name entry)
      else buildReason entry @ '' '' @ delimiter @ '' '' @ name entry)"

text \<open>The validation loop of \<^verbatim>\<open>buildAndDeploy\<close>: the first error ends it.\<close>

fun validateTargets :: "TargetSpec list \<Rightarrow> error option" where
  "validateTargets [] = None"
| "validateTargets (target # rest) =
     (case specValidate target of Some err \<Rightarrow> Some err | None \<Rightarrow> validateTargets rest)"

text \<open>
  What a run of the controller does to the outside, in order: an action dispatched to
  the store, a line handed to the logger, a call of the build engine.
\<close>

datatype Action =
    BuildStartedAction ManifestName Time "string list" BuildReason SpanID
  | BuildCompleteAction ManifestName SpanID BuildResultSet "error option"

datatype Event =
    Dispatch Action
  | Infof string
  | BuildAndDeployCall "TargetSpec list" BuildStateSet

text \<open>\<^verbatim>\<open>buildAndDeploy\<close> returns its events with Go's pair of a result set and an error.\<close>

definition buildAndDeploy ::
  "BuildController \<Rightarrow> buildEntry \<Rightarrow> Event list \<times> BuildResultSet \<times> error option" where
  "buildAndDeploy c entry =
     (let tgts = targets entry in
      case validateTargets tgts of
        Some err \<Rightarrow> ([], Map.empty, Some err)
      | None \<Rightarrow>
          ([BuildAndDeployCall tgts (entryBuildStateSet entry)],
           b c tgts (entryBuildStateSet entry)))"

subsection \<open>OnChange\<close>

text \<open>
  The body of the goroutine that \<^verbatim>\<open>OnChange\<close> starts: the log line, the build, the
  dispatch of the completion.
\<close>

definition buildTask :: "Externals \<Rightarrow> BuildController \<Rightarrow> buildEntry \<Rightarrow> Event list" where
  "buildTask x c entry =
     (case buildAndDeploy c entry of
        (calls, res, err) \<Rightarrow>
          [Infof (logBuildEntry x entry)] @ calls
            @ [Dispatch (BuildCompleteAction (name entry) (spanID entry) res err)])"

text \<open>
  \<open>now\<close> is the reading of the clock by \<^verbatim>\<open>time.Now()\<close>. The events of the task follow
  the dispatch of the start in the order of the program; how they interleave with other
  tasks is not part of the model.
\<close>

definition OnChange ::
  "Externals \<Rightarrow> ('e EngineState_scheme \<Rightarrow> ManifestTarget option) \<Rightarrow> Time \<Rightarrow> BuildController
     \<Rightarrow> 'e EngineState_scheme \<Rightarrow> BuildController \<times> Event list" where
  "OnChange x NextTargetToBuild now c st =
     (if disabledForTesting c then (c, [])
      else
        (case needsBuild x NextTargetToBuild c st of
           (c', entry, ok) \<Rightarrow>
             if \<not> ok then (c', [])
             else
               (c',
                Dispatch (BuildStartedAction (name entry) now (filesChanged entry)
                            (buildReason entry) (spanID entry))
                  # buildTask x c' entry)))"

subsection \<open>Notions used in the properties\<close>

text \<open>The specs that \<^verbatim>\<open>buildStateSet\<close> does not skip: the test of its loop, negated.\<close>

definition isBuildStateSpec :: "TargetSpec \<Rightarrow> bool" where
  "isBuildStateSpec spec =
     (Type (specID spec) = TargetTypeImage \<or> Type (specID spec) = TargetTypeDockerCompose
        \<or> Type (specID spec) = TargetTypeLocal)"

text \<open>
  The BuildState that one round of the loop of \<^verbatim>\<open>buildStateSet\<close> stores for a spec:
  made from the status of the spec's identity, with the sorted file list, then given
  the running containers.
\<close>

definition targetBuildState ::
  "Externals \<Rightarrow> Manifest \<Rightarrow> ManifestState \<Rightarrow> TargetSpec \<Rightarrow> BuildState" where
  "targetBuildState x manifest ms spec =
     (let status = BuildStatusOf ms (specID spec) in
      attachContainers x manifest ms spec
        (NewBuildState (LastSuccessfulResult status)
           (sort (map fst (DAList.impl_of (PendingFileChanges status))))))"

text \<open>
  What sets the flag \<^verbatim>\<open>anyFilesChangedSinceLastBuild\<close> for a target in the source: one
  of its pending changes meets the test of the inner loop, which is passed when the
  last build is empty or the change is after its start.
\<close>

definition changedSinceLastBuild :: "ManifestState \<Rightarrow> TargetID \<Rightarrow> bool" where
  "changedSinceLastBuild ms tid =
     list_ex (\<lambda>(file, ts). Empty (LastBuild ms) \<or> StartTime (LastBuild ms) < ts)
       (DAList.impl_of (PendingFileChanges (BuildStatusOf ms tid)))"

text \<open>
  The same notion in the words of the specification: a target saw a change when some
  pending-change timestamp is strictly after the last build's start time, or when no
  build has ever completed.
\<close>

definition sawChangeAsStated :: "ManifestState \<Rightarrow> TargetID \<Rightarrow> bool" where
  "sawChangeAsStated ms tid =
     (list_ex (\<lambda>(file, ts). StartTime (LastBuild ms) < ts)
        (DAList.impl_of (PendingFileChanges (BuildStatusOf ms tid)))
      \<or> Empty (LastBuild ms))"

text \<open>The error of the first target, in list order, whose validation fails.\<close>

definition firstValidationError :: "TargetSpec list \<Rightarrow> error option" where
  "firstValidationError tgts =
     (case find (\<lambda>t. specValidate t \<noteq> None) tgts of
        None \<Rightarrow> None
      | Some t \<Rightarrow> specValidate t)"

fun isInfof :: "Event \<Rightarrow> bool" where
  "isInfof (Infof line) = True"
| "isInfof (Dispatch a) = False"
| "isInfof (BuildAndDeployCall tgts bss) = False"

fun isBuildAndDeployCall :: "Event \<Rightarrow> bool" where
  "isBuildAndDeployCall (BuildAndDeployCall tgts bss) = True"
| "isBuildAndDeployCall (Dispatch a) = False"
| "isBuildAndDeployCall (Infof line) = False"

subsection \<open>Sample inputs\<close>

text \<open>
  The manifest \<^verbatim>\<open>myapp\<close> of the scenarios: one image target deployed to Kubernetes.
\<close>

definition sampleImageID :: TargetID where
  "sampleImageID = \<lparr>Type = TargetTypeImage, IDName = ''myimage''\<rparr>"

definition sampleK8sID :: TargetID where
  "sampleK8sID = \<lparr>Type = TargetTypeK8s, IDName = ''myapp''\<rparr>"

definition sampleImage :: ImageTarget where
  "sampleImage = \<lparr>ID = sampleImageID, Validate = None\<rparr>"

definition sampleBadImage :: ImageTarget where
  "sampleBadImage =
     \<lparr>ID = \<lparr>Type = TargetTypeImage, IDName = ''badimage''\<rparr>,
      Validate = Some (Error ''bad image'')\<rparr>"

definition sampleK8s :: K8sTarget where
  "sampleK8s = \<lparr>ID = sampleK8sID, Validate = None\<rparr>"

definition zeroTarget :: Target where
  "zeroTarget = \<lparr>ID = \<lparr>Type = TargetTypeOther [], IDName = []\<rparr>, Validate = None\<rparr>"

definition myapp :: Manifest where
  "myapp =
     \<lparr>Name = ''myapp'', ImageTargets = [sampleImage],
      IsDC = False, DockerComposeTarget = zeroTarget,
      IsK8s = True, K8sTarget = sampleK8s,
      IsLocal = False, LocalTarget = zeroTarget\<rparr>"

definition myappBad :: Manifest where
  "myappBad = myapp\<lparr>ImageTargets := [sampleImage, sampleBadImage]\<rparr>"

definition sampleExternals :: Externals where
  "sampleExternals =
     \<lparr>RunningContainersForTargetForOnePod = (\<lambda>iTarget rt. ([MkContainerInfo 1], None)),
      RunningContainersForDC = (\<lambda>rt. [MkContainerInfo 2]),
      FilesChanged =
        (\<lambda>bss. case bss sampleImageID of None \<Rightarrow> [] | Some bs \<Rightarrow> ChangedFiles bs),
      FormatFileChangeList =
        (\<lambda>files. case files of [] \<Rightarrow> []
                  | f # fs \<Rightarrow> f @ concat (map (\<lambda>g. '', '' @ g) fs))\<rparr>"

definition noPending :: "TargetID \<Rightarrow> BuildStatus" where
  "noPending tid = \<lparr>PendingFileChanges = DAList.empty, LastSuccessfulResult = MkBuildResult 0\<rparr>"

definition twoPending :: "TargetID \<Rightarrow> BuildStatus" where
  "twoPending tid =
     (if tid = sampleImageID
      then \<lparr>PendingFileChanges = DAList.Alist [(''z.go'', 11), (''a.go'', 12)],
            LastSuccessfulResult = MkBuildResult 0\<rparr>
      else noPending tid)"

text \<open>Never built, nothing pending.\<close>

definition neverBuilt :: ManifestState where
  "neverBuilt =
     \<lparr>StartedFirstBuild = False, LastBuild = \<lparr>StartTime = 0, Empty = True\<rparr>,
      NeedsRebuildFromCrash = False, ConfigFilesThatCausedChange = [],
      BuildStatusOf = noPending,
      K8sRuntimeState = MkK8sRuntime 0, DCRuntimeState = MkDCRuntime 0\<rparr>"

text \<open>Built at time 10, nothing pending.\<close>

definition builtNoChanges :: ManifestState where
  "builtNoChanges =
     neverBuilt\<lparr>StartedFirstBuild := True, LastBuild := \<lparr>StartTime = 10, Empty = False\<rparr>\<rparr>"

text \<open>Built at time 10, two files changed later; the map is visited \<^verbatim>\<open>z.go\<close> first.\<close>

definition builtTwoChanges :: ManifestState where
  "builtTwoChanges = builtNoChanges\<lparr>BuildStatusOf := twoPending\<rparr>"

text \<open>Built at time 10, crashed since, nothing pending.\<close>

definition crashed :: ManifestState where
  "crashed = builtNoChanges\<lparr>NeedsRebuildFromCrash := True\<rparr>"

definition sampleController :: BuildController where
  "sampleController =
     \<lparr>b = (\<lambda>tgts bss. ([sampleImageID \<mapsto> MkBuildResult 7], None)),
      buildsStartedCount = 0, disabledForTesting = False\<rparr>"

definition sampleState :: EngineState where
  "sampleState = \<lparr>StartedBuildCount = 0, AvailableBuildSlots = 1\<rparr>"

text \<open>An oracle that always has a candidate: the given manifest with the given state.\<close>

definition sampleOracle ::
  "Manifest \<Rightarrow> ManifestState \<Rightarrow> EngineState \<Rightarrow> ManifestTarget option" where
  "sampleOracle manifest ms st =
     Some \<lparr>Manifest = manifest, State = ms, NextBuildReason = ''triggered manually''\<rparr>"

text \<open>An oracle that has no candidate.\<close>

definition idleOracle :: "EngineState \<Rightarrow> ManifestTarget option" where
  "idleOracle st = None"

section \<open>Properties\<close>

subsection \<open>Auxiliary facts\<close>

lemma buildTargets_images:
  "foldl (\<lambda>result iTarget. result @ [ImageTargetSpec iTarget]) acc its =
     acc @ map ImageTargetSpec its"
  by (induction its arbitrary: acc) simp_all

lemma sint_succ: "sint (w :: 64 word) < 2 ^ 63 - 1 \<Longrightarrow> sint (w + 1) = sint w + 1"
proof -
  assume a: "sint w < 2 ^ 63 - 1"
  have lo: "- (2 ^ 63) \<le> sint w" using sint_ge [of w] by simp
  have "sint (w + 1) = signed_take_bit 63 (sint w + 1)"
    by (simp add: sint_word_add)
  also have "\<dots> = sint w + 1"
    by (rule signed_take_bit_int_eq_self) (use a lo in simp_all)
  finally show ?thesis .
qed

lemma foldl_pendingStep:
  "foldl (pendingStep ms) (fs, a) es =
     (fs @ map fst es,
      a \<or> list_ex (\<lambda>(file, ts). Empty (LastBuild ms) \<or> StartTime (LastBuild ms) < ts) es)"
proof (induction es arbitrary: fs a)
  case Nil
  show ?case by simp
next
  case (Cons e es)
  obtain path ts where e: "e = (path, ts)" by (cases e)
  have step: "pendingStep ms (fs, a) (path, ts) =
      (fs @ [path], Empty (LastBuild ms) \<or> StartTime (LastBuild ms) < ts \<or> a)"
    by (simp add: pendingStep_def)
  show ?case
    by (auto simp: step Cons.IH e)
qed

lemma buildStateSetStep_eq:
  "buildStateSetStep x manifest ms (result, a) spec =
     (if isBuildStateSpec spec
      then (result(specID spec \<mapsto> targetBuildState x manifest ms spec),
            a \<or> changedSinceLastBuild ms (specID spec))
      else (result, a))"
  by (auto simp: buildStateSetStep_def isBuildStateSpec_def targetBuildState_def
        changedSinceLastBuild_def foldl_pendingStep Let_def)

lemma buildStateSetStep_fst:
  "fst (buildStateSetStep x manifest ms acc spec) =
     (if isBuildStateSpec spec
      then (fst acc)(specID spec \<mapsto> targetBuildState x manifest ms spec)
      else fst acc)"
  by (cases acc) (simp add: buildStateSetStep_eq)

lemma buildStateSetStep_snd:
  "snd (buildStateSetStep x manifest ms acc spec) =
     (snd acc \<or> (isBuildStateSpec spec \<and> changedSinceLastBuild ms (specID spec)))"
  by (cases acc) (simp add: buildStateSetStep_eq)

lemma foldl_step_dom:
  "dom (fst (foldl (buildStateSetStep x manifest ms) acc specs)) =
     dom (fst acc) \<union> specID ` set (filter isBuildStateSpec specs)"
proof (induction specs arbitrary: acc)
  case Nil
  show ?case by simp
next
  case (Cons spec specs)
  have "dom (fst (buildStateSetStep x manifest ms acc spec)) =
          dom (fst acc) \<union> specID ` set (filter isBuildStateSpec [spec])"
    by (cases "isBuildStateSpec spec") (simp_all add: buildStateSetStep_fst)
  then show ?case
    by (auto simp: Cons.IH)
qed

lemma foldl_step_flag:
  "snd (foldl (buildStateSetStep x manifest ms) acc specs) =
     (snd acc
      \<or> (\<exists>spec \<in> set specs. isBuildStateSpec spec \<and> changedSinceLastBuild ms (specID spec)))"
proof (induction specs arbitrary: acc)
  case Nil
  show ?case by simp
next
  case (Cons spec specs)
  show ?case
    by (auto simp: Cons.IH buildStateSetStep_snd)
qed

lemma foldl_step_value:
  assumes "fst (foldl (buildStateSetStep x manifest ms) acc specs) tid = Some bs"
  shows "fst acc tid = Some bs
       \<or> (\<exists>spec \<in> set specs. isBuildStateSpec spec \<and> specID spec = tid
             \<and> bs = targetBuildState x manifest ms spec)"
  using assms
proof (induction specs arbitrary: acc)
  case Nil
  then show ?case by simp
next
  case (Cons spec specs)
  from Cons.prems have
    "fst (foldl (buildStateSetStep x manifest ms)
            (buildStateSetStep x manifest ms acc spec) specs) tid = Some bs"
    by simp
  from Cons.IH [OF this] show ?case
    by (auto simp: buildStateSetStep_fst split: if_splits)
qed

lemma buildStateSet_value:
  assumes "buildStateSet x manifest specs ms tid = Some bs"
  shows "\<exists>spec \<in> set specs. isBuildStateSpec spec \<and> specID spec = tid
           \<and> bs = (targetBuildState x manifest ms spec)
                    \<lparr>NeedsForceUpdate :=
                       (if \<not> NeedsRebuildFromCrash ms
                           \<and> \<not> (\<exists>s \<in> set specs. isBuildStateSpec s
                                                 \<and> changedSinceLastBuild ms (specID s))
                        then True
                        else NeedsForceUpdate (targetBuildState x manifest ms spec))\<rparr>"
proof -
  obtain result a where
    f: "foldl (buildStateSetStep x manifest ms) (Map.empty, False) specs = (result, a)"
    by (cases "foldl (buildStateSetStep x manifest ms) (Map.empty, False) specs")
  have a: "a = (\<exists>s \<in> set specs. isBuildStateSpec s \<and> changedSinceLastBuild ms (specID s))"
    using foldl_step_flag [of x manifest ms "(Map.empty, False)" specs] f by simp
  have v: "\<And>bs'. result tid = Some bs' \<Longrightarrow>
             \<exists>spec \<in> set specs. isBuildStateSpec spec \<and> specID spec = tid
               \<and> bs' = targetBuildState x manifest ms spec"
    using foldl_step_value [of x manifest ms "(Map.empty, False)" specs tid] f by simp
  show ?thesis
  proof (cases "\<not> NeedsRebuildFromCrash ms \<and> \<not> a")
    case True
    with assms f obtain bs' where r: "result tid = Some bs'"
      and bs: "bs = WithNeedsForceUpdate bs' True"
      by (auto simp: buildStateSet_def)
    from v [OF r] True a bs show ?thesis
      by (auto simp: WithNeedsForceUpdate_def)
  next
    case False
    with assms f have r: "result tid = Some bs"
      by (auto simp: buildStateSet_def)
    from v [OF r] False a show ?thesis
      by auto
  qed
qed

lemma targetBuildState_files:
  "ChangedFiles (targetBuildState x manifest ms spec) =
     sort (map fst (DAList.impl_of (PendingFileChanges (BuildStatusOf ms (specID spec)))))"
  by (simp add: targetBuildState_def attachContainers_def NewBuildState_def
        WithRunningContainers_def WithRunningContainerError_def Let_def
        split: TargetSpec.split prod.split option.split)

lemma targetBuildState_force:
  "NeedsForceUpdate (targetBuildState x manifest ms spec) = False"
  by (simp add: targetBuildState_def attachContainers_def NewBuildState_def
        WithRunningContainers_def WithRunningContainerError_def Let_def
        split: TargetSpec.split prod.split option.split)

lemma targetBuildState_crash:
  "NeedsRebuildFromCrash ms \<Longrightarrow>
     RunningContainers (targetBuildState x manifest ms spec) = []
     \<and> RunningContainerError (targetBuildState x manifest ms spec) = None"
  by (simp add: targetBuildState_def attachContainers_def NewBuildState_def Let_def)

lemma needsBuild_admitted:
  assumes "needsBuild x oracle c st = (c1, e1, True)"
  shows "buildsStartedCount c1 = buildsStartedCount c + 1
       \<and> spanID e1 = ''build:'' @ fmtInt (sint (buildsStartedCount c1))"
  using assms
  by (auto simp: needsBuild_def Let_def SpanIDForBuildLog_def emptyBuildEntry_def
        split: if_splits option.splits)

lemma needsBuild_declined:
  assumes "needsBuild x oracle c st = (c1, e1, False)"
  shows "c1 = c \<and> e1 = emptyBuildEntry"
  using assms
  by (auto simp: needsBuild_def Let_def split: if_splits option.splits)

lemma runNeedsBuild_spans:
  assumes "runNeedsBuild c calls = (cn, entries)"
  shows "buildsStartedCount cn = buildsStartedCount c + of_nat (length entries)
       \<and> map spanID entries =
           map (\<lambda>k. ''build:'' @ fmtInt (sint (buildsStartedCount c + of_nat (Suc k))))
             [0..<length entries]"
  using assms
proof (induction calls arbitrary: c cn entries)
  case Nil
  then show ?case by simp
next
  case (Cons call calls)
  obtain x orc st where call: "call = (x, orc, st)"
    by (cases call)
  obtain c1 e1 ok where nb: "needsBuild x orc c st = (c1, e1, ok)"
    by (cases "needsBuild x orc c st")
  obtain c2 rest where run: "runNeedsBuild c1 calls = (c2, rest)"
    by (cases "runNeedsBuild c1 calls")
  from Cons.prems have cn: "cn = c2"
    and entries: "entries = (if ok then e1 # rest else rest)"
    by (simp_all add: call nb run)
  note ih = Cons.IH [OF run]
  show ?case
  proof (cases ok)
    case False
    with nb have "needsBuild x orc c st = (c1, e1, False)"
      by simp
    from needsBuild_declined [OF this] have "c1 = c"
      by simp
    with ih False show ?thesis
      by (simp add: cn entries)
  next
    case True
    with nb have "needsBuild x orc c st = (c1, e1, True)"
      by simp
    from needsBuild_admitted [OF this]
    have c1: "buildsStartedCount c1 = buildsStartedCount c + 1"
      and e1: "spanID e1 = ''build:'' @ fmtInt (sint (buildsStartedCount c1))"
      by simp_all
    have len: "length entries = Suc (length rest)"
      using True by (simp add: entries)
    have key: "\<And>k. buildsStartedCount c1 + of_nat k = buildsStartedCount c + of_nat (Suc k)"
      by (simp add: c1 algebra_simps)
    from ih have "buildsStartedCount c2 = buildsStartedCount c1 + of_nat (length rest)"
      by (rule conjunct1)
    then have count: "buildsStartedCount cn = buildsStartedCount c + of_nat (length entries)"
      by (simp only: key cn len)
    from ih have "map spanID rest =
        map (\<lambda>k. ''build:'' @ fmtInt (sint (buildsStartedCount c1 + of_nat (Suc k))))
          [0..<length rest]"
      by (rule conjunct2)
    then have rest: "map spanID rest =
        map (\<lambda>k. ''build:'' @ fmtInt (sint (buildsStartedCount c + of_nat (Suc (Suc k)))))
          [0..<length rest]"
      by (simp only: key)
    have first: "spanID e1 = ''build:'' @ fmtInt (sint (buildsStartedCount c + of_nat (Suc 0)))"
      using e1 key [of 0] by simp
    have "map spanID entries = spanID e1 # map spanID rest"
      using True by (simp add: entries)
    also have "\<dots> =
        map (\<lambda>k. ''build:'' @ fmtInt (sint (buildsStartedCount c + of_nat (Suc k))))
          [0..<Suc (length rest)]"
      by (simp only: map_upt_Suc first rest)
    finally show ?thesis
      using count by (simp only: len)
  qed
qed

lemma validateTargets_first: "validateTargets tgts = firstValidationError tgts"
  by (induction tgts) (auto simp: firstValidationError_def split: option.splits)

lemma firstValidationError_some:
  assumes "t \<in> set tgts" and "specValidate t \<noteq> None"
  shows "\<exists>err. firstValidationError tgts = Some err"
proof -
  from assms obtain t' where "find (\<lambda>t. specValidate t \<noteq> None) tgts = Some t'"
    by (cases "find (\<lambda>t. specValidate t \<noteq> None) tgts") (auto simp: find_None_iff)
  moreover from this have "specValidate t' \<noteq> None"
    by (auto simp: find_Some_iff)
  ultimately show ?thesis
    by (auto simp: firstValidationError_def)
qed

lemma buildTask_events:
  "buildTask x c entry =
     Infof (logBuildEntry x entry)
       # (case validateTargets (targets entry) of
            Some err \<Rightarrow>
              [Dispatch (BuildCompleteAction (name entry) (spanID entry) Map.empty (Some err))]
          | None \<Rightarrow>
              [BuildAndDeployCall (targets entry) (entryBuildStateSet entry),
               Dispatch (BuildCompleteAction (name entry) (spanID entry)
                 (fst (b c (targets entry) (entryBuildStateSet entry)))
                 (snd (b c (targets entry) (entryBuildStateSet entry))))])"
  by (simp add: buildTask_def buildAndDeploy_def Let_def split: option.split prod.split)

lemma OnChange_admitted:
  assumes "\<not> disabledForTesting c" and "needsBuild x oracle c st = (c', entry, True)"
  shows "OnChange x oracle now c st =
     (c', Dispatch (BuildStartedAction (name entry) now (filesChanged entry)
                      (buildReason entry) (spanID entry))
            # buildTask x c' entry)"
  using assms by (simp add: OnChange_def)

text \<open>
  The test of the source and the notion in the specification's words agree on a target
  that has a pending change, and on no other.
\<close>

lemma changedSinceLastBuild_iff:
  "changedSinceLastBuild ms tid \<longleftrightarrow>
     DAList.impl_of (PendingFileChanges (BuildStatusOf ms tid)) \<noteq> [] \<and> sawChangeAsStated ms tid"
  by (cases "DAList.impl_of (PendingFileChanges (BuildStatusOf ms tid))")
     (auto simp: changedSinceLastBuild_def sawChangeAsStated_def list_ex_iff)

text \<open>
  The order in which the entries of the pending-changes map are visited does not show
  in what \<^verbatim>\<open>buildStateSet\<close> computes from them: two visits of the same entries give
  the same sorted file list and the same answer to any test on an entry.
\<close>

lemma pending_visit_order:
  assumes "set (DAList.impl_of p) = set (DAList.impl_of q)"
  shows "sort (map fst (DAList.impl_of p)) = sort (map fst (DAList.impl_of q))"
    and "list_ex P (DAList.impl_of p) = list_ex P (DAList.impl_of q)"
proof -
  have "set (map fst (DAList.impl_of p)) = set (map fst (DAList.impl_of q))"
    using assms by simp
  then have "set (sort (map fst (DAList.impl_of p))) = set (sort (map fst (DAList.impl_of q)))"
    by simp
  moreover have "distinct (sort (map fst (DAList.impl_of p)))"
    and "distinct (sort (map fst (DAList.impl_of q)))"
    by simp_all
  ultimately show "sort (map fst (DAList.impl_of p)) = sort (map fst (DAList.impl_of q))"
    by (intro sorted_distinct_set_unique) simp_all
  show "list_ex P (DAList.impl_of p) = list_ex P (DAList.impl_of q)"
    using assms by (simp add: list_ex_iff)
qed

subsection \<open>The sample inputs, evaluated\<close>

lemma buildTargets_myapp:
  "buildTargets myapp = [ImageTargetSpec sampleImage, K8sTargetSpec sampleK8s]"
  by (simp add: buildTargets_def myapp_def)

lemma sample_specs:
  "isBuildStateSpec (ImageTargetSpec sampleImage)"
  "\<not> isBuildStateSpec (K8sTargetSpec sampleK8s)"
  "specID (ImageTargetSpec sampleImage) = sampleImageID"
  by (simp_all add: isBuildStateSpec_def specID_def sampleImage_def sampleK8s_def
        sampleImageID_def sampleK8sID_def)

lemma impl_of_noPending:
  "DAList.impl_of (PendingFileChanges (noPending tid)) = []"
  by (simp add: noPending_def DAList.empty.rep_eq)

lemma buildStateSet_sample:
  "buildStateSet x manifest [ImageTargetSpec sampleImage, K8sTargetSpec sampleK8s] ms sampleImageID =
     Some ((targetBuildState x manifest ms (ImageTargetSpec sampleImage))
             \<lparr>NeedsForceUpdate := \<not> NeedsRebuildFromCrash ms \<and> \<not> changedSinceLastBuild ms sampleImageID\<rparr>)"
  by (simp add: buildStateSet_def buildStateSetStep_eq sample_specs WithNeedsForceUpdate_def
        targetBuildState_force)

lemma target_builtTwoChanges:
  "targetBuildState sampleExternals myapp builtTwoChanges (ImageTargetSpec sampleImage) =
     \<lparr>LastResult = MkBuildResult 0, ChangedFiles = [''a.go'', ''z.go''],
      RunningContainers = [MkContainerInfo 1], RunningContainerError = None,
      NeedsForceUpdate = False\<rparr>"
  by (simp add: targetBuildState_def sample_specs builtTwoChanges_def builtNoChanges_def
        neverBuilt_def impl_of_Alist attachContainers_def NewBuildState_def
        WithRunningContainers_def sampleExternals_def myapp_def twoPending_def)

lemma target_noPending:
  assumes "BuildStatusOf ms = noPending"
  shows "targetBuildState sampleExternals myapp ms (ImageTargetSpec sampleImage) =
     \<lparr>LastResult = MkBuildResult 0, ChangedFiles = [],
      RunningContainers = (if NeedsRebuildFromCrash ms then [] else [MkContainerInfo 1]),
      RunningContainerError = None, NeedsForceUpdate = False\<rparr>"
  by (simp add: targetBuildState_def assms noPending_def DAList.empty.rep_eq
        attachContainers_def NewBuildState_def WithRunningContainers_def
        sampleExternals_def myapp_def)

lemma changed_samples:
  "changedSinceLastBuild builtTwoChanges sampleImageID"
  "\<not> changedSinceLastBuild builtNoChanges sampleImageID"
  "\<not> changedSinceLastBuild neverBuilt sampleImageID"
  "\<not> changedSinceLastBuild crashed sampleImageID"
  by (simp_all add: changedSinceLastBuild_def builtTwoChanges_def builtNoChanges_def
        neverBuilt_def crashed_def twoPending_def noPending_def impl_of_Alist
        DAList.empty.rep_eq)

lemma fmtInt_small: "fmtInt 1 = ''1''" "fmtInt 2 = ''2''"
  by code_simp+

lemma needsBuild_sample_at:
  "needsBuild x (sampleOracle manifest ms) (sampleController\<lparr>buildsStartedCount := n\<rparr>)
       (sampleState\<lparr>StartedBuildCount := n\<rparr>) =
     (sampleController\<lparr>buildsStartedCount := n + 1\<rparr>,
      \<lparr>name = Name manifest,
       targets = buildTargets manifest,
       entryBuildStateSet = buildStateSet x manifest (buildTargets manifest) ms,
       filesChanged = ConfigFilesThatCausedChange ms
                        @ FilesChanged x (buildStateSet x manifest (buildTargets manifest) ms),
       buildReason = ''triggered manually'',
       firstBuild = (\<not> StartedFirstBuild ms),
       spanID = SpanIDForBuildLog (n + 1)\<rparr>,
      True)"
  by (simp add: needsBuild_def sampleOracle_def sampleController_def sampleState_def Let_def)

lemma needsBuild_sample:
  "needsBuild x (sampleOracle manifest ms) sampleController sampleState =
     (sampleController\<lparr>buildsStartedCount := 1\<rparr>,
      \<lparr>name = Name manifest,
       targets = buildTargets manifest,
       entryBuildStateSet = buildStateSet x manifest (buildTargets manifest) ms,
       filesChanged = ConfigFilesThatCausedChange ms
                        @ FilesChanged x (buildStateSet x manifest (buildTargets manifest) ms),
       buildReason = ''triggered manually'',
       firstBuild = (\<not> StartedFirstBuild ms),
       spanID = ''build:1''\<rparr>,
      True)"
  using needsBuild_sample_at [of x manifest ms 0]
  by (simp add: sampleController_def sampleState_def SpanIDForBuildLog_def fmtInt_small)

lemma needsBuild_idle:
  "needsBuild x idleOracle c st = (c, emptyBuildEntry, False)"
  by (simp add: needsBuild_def idleOracle_def)

lemma FilesChanged_sample:
  "FilesChanged sampleExternals bss =
     (case bss sampleImageID of None \<Rightarrow> [] | Some bs \<Rightarrow> ChangedFiles bs)"
  by (simp add: sampleExternals_def)

lemma FilesChanged_noPending:
  assumes "BuildStatusOf ms = noPending"
  shows "FilesChanged sampleExternals (buildStateSet x manifest specs ms) = []"
proof (cases "buildStateSet x manifest specs ms sampleImageID")
  case None
  then show ?thesis by (simp add: FilesChanged_sample)
next
  case (Some bs)
  from buildStateSet_value [OF Some] obtain spec where
    "bs = (targetBuildState x manifest ms spec)
            \<lparr>NeedsForceUpdate :=
               (if \<not> NeedsRebuildFromCrash ms
                   \<and> \<not> (\<exists>s \<in> set specs. isBuildStateSpec s
                                         \<and> changedSinceLastBuild ms (specID s))
                then True
                else NeedsForceUpdate (targetBuildState x manifest ms spec))\<rparr>"
    by blast
  then have "ChangedFiles bs = []"
    by (simp add: targetBuildState_files assms impl_of_noPending)
  with Some show ?thesis by (simp add: FilesChanged_sample)
qed

lemma delimiter_bytes: "delimiter = [CHR 0xE2, CHR 0x80, CHR 0xA2]"
  by (simp add: delimiter_def)

lemma buildTargets_myappBad:
  "buildTargets myappBad =
     [ImageTargetSpec sampleImage, ImageTargetSpec sampleBadImage, K8sTargetSpec sampleK8s]"
  by (simp add: buildTargets_def myappBad_def myapp_def)

subsection \<open>C1: the started-build counters must agree\<close>

text \<open>
  C1. In every shared state where the controller's own count of started builds differs
  from the count held by the store, \<^verbatim>\<open>needsBuild\<close> declines: it returns the controller
  unchanged, the empty entry and \<^verbatim>\<open>false\<close>. The slot count and the selection oracle are
  not consulted: the result is the same whatever the slot count of the state and
  whatever the oracle.
\<close>

theorem count_mismatch_declines:
  assumes "buildsStartedCount c \<noteq> StartedBuildCount st"
  shows "needsBuild x oracle c st = (c, emptyBuildEntry, False)
       \<and> needsBuild x oracle' c (st\<lparr>AvailableBuildSlots := slots\<rparr>) = needsBuild x oracle c st"
  using assms by (simp add: needsBuild_def)

text \<open>
  C1 on the sample: the controller has started one build that the store has not yet
  recorded, a slot is free and the oracle has a candidate, and the build is declined;
  with the counters equal the same state and oracle admit it.
\<close>

theorem count_mismatch_declines_witness:
  "buildsStartedCount (sampleController\<lparr>buildsStartedCount := 1\<rparr>) \<noteq> StartedBuildCount sampleState
   \<and> needsBuild sampleExternals (sampleOracle myapp neverBuilt)
        (sampleController\<lparr>buildsStartedCount := 1\<rparr>) sampleState
       = (sampleController\<lparr>buildsStartedCount := 1\<rparr>, emptyBuildEntry, False)
   \<and> snd (snd (needsBuild sampleExternals (sampleOracle myapp neverBuilt)
                  sampleController sampleState)) = True"
proof -
  have h: "buildsStartedCount (sampleController\<lparr>buildsStartedCount := 1\<rparr>)
             \<noteq> StartedBuildCount sampleState"
    by (simp add: sampleState_def)
  from count_mismatch_declines [OF h] h show ?thesis
    by (simp add: needsBuild_sample)
qed

subsection \<open>C2: the force-rebuild rule\<close>

text \<open>
  C2, as the code has it. For every manifest whose state is not rebuilding from a
  crash, every BuildState of the set built by \<^verbatim>\<open>buildStateSet\<close> has the force-rebuild
  flag set exactly when no spec of type Image, DockerCompose or Local has a pending
  change that meets the test of the source: the last build is empty, or the change is
  strictly after the start of the last build. So the flag is set on every BuildState
  when no such spec has such a change, and on none when one has.
\<close>

theorem force_rebuild_rule:
  assumes "\<not> NeedsRebuildFromCrash ms"
    and "buildStateSet x manifest specs ms tid = Some bs"
  shows "NeedsForceUpdate bs =
           (\<not> (\<exists>spec \<in> set specs. isBuildStateSpec spec
                                    \<and> changedSinceLastBuild ms (specID spec)))"
proof -
  from buildStateSet_value [OF assms(2)] obtain spec where
    "bs = (targetBuildState x manifest ms spec)
            \<lparr>NeedsForceUpdate :=
               (if \<not> NeedsRebuildFromCrash ms
                   \<and> \<not> (\<exists>s \<in> set specs. isBuildStateSpec s
                                         \<and> changedSinceLastBuild ms (specID s))
                then True
                else NeedsForceUpdate (targetBuildState x manifest ms spec))\<rparr>"
    by blast
  with assms(1) show ?thesis
    by (simp add: targetBuildState_force)
qed

text \<open>
  C2 on the sample manifest, built at time 10. With the two changes at times 11 and 12
  pending the flag stays clear; with nothing pending the flag is set.
\<close>

theorem force_rebuild_rule_witness:
  "\<not> NeedsRebuildFromCrash builtTwoChanges
   \<and> buildStateSet sampleExternals myapp (buildTargets myapp) builtTwoChanges sampleImageID =
       Some \<lparr>LastResult = MkBuildResult 0, ChangedFiles = [''a.go'', ''z.go''],
             RunningContainers = [MkContainerInfo 1], RunningContainerError = None,
             NeedsForceUpdate = False\<rparr>
   \<and> \<not> NeedsRebuildFromCrash builtNoChanges
   \<and> buildStateSet sampleExternals myapp (buildTargets myapp) builtNoChanges sampleImageID =
       Some \<lparr>LastResult = MkBuildResult 0, ChangedFiles = [],
             RunningContainers = [MkContainerInfo 1], RunningContainerError = None,
             NeedsForceUpdate = True\<rparr>"
proof -
  have c1: "\<not> NeedsRebuildFromCrash builtTwoChanges"
    by (simp add: builtTwoChanges_def builtNoChanges_def neverBuilt_def)
  have c2: "\<not> NeedsRebuildFromCrash builtNoChanges"
    by (simp add: builtNoChanges_def neverBuilt_def)
  have s2: "BuildStatusOf builtNoChanges = noPending"
    by (simp add: builtNoChanges_def neverBuilt_def)
  obtain bs1 where b1:
    "buildStateSet sampleExternals myapp (buildTargets myapp) builtTwoChanges sampleImageID
       = Some bs1"
    by (simp add: buildTargets_myapp buildStateSet_sample)
  obtain bs2 where b2:
    "buildStateSet sampleExternals myapp (buildTargets myapp) builtNoChanges sampleImageID
       = Some bs2"
    by (simp add: buildTargets_myapp buildStateSet_sample)
  have f1: "NeedsForceUpdate bs1 = False"
    using force_rebuild_rule [OF c1 b1]
    by (auto simp: buildTargets_myapp sample_specs changed_samples)
  have f2: "NeedsForceUpdate bs2 = True"
    using force_rebuild_rule [OF c2 b2]
    by (auto simp: buildTargets_myapp sample_specs changed_samples)
  from b1 f1 have "bs1 = \<lparr>LastResult = MkBuildResult 0, ChangedFiles = [''a.go'', ''z.go''],
             RunningContainers = [MkContainerInfo 1], RunningContainerError = None,
             NeedsForceUpdate = False\<rparr>"
    by (auto simp: buildTargets_myapp buildStateSet_sample target_builtTwoChanges)
  moreover from b2 f2 have "bs2 = \<lparr>LastResult = MkBuildResult 0, ChangedFiles = [],
             RunningContainers = [MkContainerInfo 1], RunningContainerError = None,
             NeedsForceUpdate = True\<rparr>"
    by (auto simp: buildTargets_myapp buildStateSet_sample target_noPending [OF s2] c2)
  ultimately show ?thesis
    using b1 b2 c1 c2 by simp
qed

text \<open>
  C2 in the specification's own words fails on a manifest that was never built and has
  nothing pending: in those words its image target saw a change, since no build has
  ever completed, yet the rule sets the force-rebuild flag on its BuildState. In the
  source the test for an empty last build stands inside the loop over the pending
  changes, so it is never made when nothing is pending.
\<close>

theorem force_rebuild_as_stated_counterexample:
  "\<not> NeedsRebuildFromCrash neverBuilt
   \<and> isBuildStateSpec (ImageTargetSpec sampleImage)
   \<and> sawChangeAsStated neverBuilt (specID (ImageTargetSpec sampleImage))
   \<and> buildStateSet sampleExternals myapp (buildTargets myapp) neverBuilt
        (specID (ImageTargetSpec sampleImage)) =
       Some \<lparr>LastResult = MkBuildResult 0, ChangedFiles = [],
             RunningContainers = [MkContainerInfo 1], RunningContainerError = None,
             NeedsForceUpdate = True\<rparr>"
proof -
  have s: "BuildStatusOf neverBuilt = noPending"
    by (simp add: neverBuilt_def)
  have c: "\<not> NeedsRebuildFromCrash neverBuilt"
    by (simp add: neverBuilt_def)
  have "sawChangeAsStated neverBuilt sampleImageID"
    by (simp add: sawChangeAsStated_def neverBuilt_def)
  then show ?thesis
    by (simp add: sample_specs buildTargets_myapp buildStateSet_sample
          target_noPending [OF s] c changed_samples)
qed

subsection \<open>C3: rebuilding from a crash\<close>

text \<open>
  C3. For every manifest whose state is rebuilding from a crash, no BuildState of the
  set built by \<^verbatim>\<open>buildStateSet\<close> carries running containers or a running-container
  error, and none has the force-rebuild flag set, whatever the pending changes.
\<close>

theorem crash_rebuild_state:
  assumes "NeedsRebuildFromCrash ms"
    and "buildStateSet x manifest specs ms tid = Some bs"
  shows "RunningContainers bs = [] \<and> RunningContainerError bs = None
       \<and> NeedsForceUpdate bs = False"
proof -
  from buildStateSet_value [OF assms(2)] obtain spec where
    bs: "bs = (targetBuildState x manifest ms spec)
            \<lparr>NeedsForceUpdate :=
               (if \<not> NeedsRebuildFromCrash ms
                   \<and> \<not> (\<exists>s \<in> set specs. isBuildStateSpec s
                                         \<and> changedSinceLastBuild ms (specID s))
                then True
                else NeedsForceUpdate (targetBuildState x manifest ms spec))\<rparr>"
    by blast
  have "RunningContainers bs = []" and "RunningContainerError bs = None"
    using targetBuildState_crash [OF assms(1), of x manifest spec] by (simp_all add: bs)
  moreover have "NeedsForceUpdate bs = False"
    using assms(1) by (simp add: bs targetBuildState_force)
  ultimately show ?thesis by simp
qed

text \<open>
  C3 on the sample manifest after a crash, with no file changed: the containers that
  the Kubernetes lookup would return are left out, and the flag is clear.
\<close>

theorem crash_rebuild_state_witness:
  "NeedsRebuildFromCrash crashed
   \<and> changedSinceLastBuild crashed sampleImageID = False
   \<and> buildStateSet sampleExternals myapp (buildTargets myapp) crashed sampleImageID =
       Some \<lparr>LastResult = MkBuildResult 0, ChangedFiles = [],
             RunningContainers = [], RunningContainerError = None,
             NeedsForceUpdate = False\<rparr>"
proof -
  have c: "NeedsRebuildFromCrash crashed"
    by (simp add: crashed_def)
  have s: "BuildStatusOf crashed = noPending"
    by (simp add: crashed_def builtNoChanges_def neverBuilt_def)
  obtain bs where b:
    "buildStateSet sampleExternals myapp (buildTargets myapp) crashed sampleImageID = Some bs"
    by (simp add: buildTargets_myapp buildStateSet_sample)
  have "LastResult bs = MkBuildResult 0" and "ChangedFiles bs = []"
    using b by (auto simp: buildTargets_myapp buildStateSet_sample target_noPending [OF s])
  with crash_rebuild_state [OF c b]
  have "bs = \<lparr>LastResult = MkBuildResult 0, ChangedFiles = [],
             RunningContainers = [], RunningContainerError = None,
             NeedsForceUpdate = False\<rparr>"
    by (cases bs) simp
  with b c show ?thesis
    by (simp add: changed_samples)
qed

subsection \<open>C4: a target that fails validation\<close>

text \<open>
  C4. When an admitted entry holds a target whose \<^verbatim>\<open>Validate\<close> fails, the run of
  \<^verbatim>\<open>OnChange\<close> dispatches the start, logs the summary line and dispatches the
  completion with the first validation error and an empty result set; the build engine
  is not called.
\<close>

theorem validation_failure:
  assumes "\<not> disabledForTesting c" and "needsBuild x oracle c st = (c', entry, True)"
    and "t \<in> set (targets entry)" and "specValidate t \<noteq> None"
  shows "\<exists>err. firstValidationError (targets entry) = Some err
     \<and> snd (OnChange x oracle now c st) =
         [Dispatch (BuildStartedAction (name entry) now (filesChanged entry)
                      (buildReason entry) (spanID entry)),
          Infof (logBuildEntry x entry),
          Dispatch (BuildCompleteAction (name entry) (spanID entry) Map.empty (Some err))]
     \<and> \<not> list_ex isBuildAndDeployCall (snd (OnChange x oracle now c st))"
proof -
  from firstValidationError_some [OF assms(3,4)] obtain err where
    err: "firstValidationError (targets entry) = Some err" ..
  then have "validateTargets (targets entry) = Some err"
    by (simp add: validateTargets_first)
  then have "snd (OnChange x oracle now c st) =
         [Dispatch (BuildStartedAction (name entry) now (filesChanged entry)
                      (buildReason entry) (spanID entry)),
          Infof (logBuildEntry x entry),
          Dispatch (BuildCompleteAction (name entry) (spanID entry) Map.empty (Some err))]"
    by (simp add: OnChange_admitted [OF assms(1,2)] buildTask_events)
  with err show ?thesis
    by simp
qed

text \<open>
  C4 on a manifest whose second image target is invalid: the completion carries that
  target's error and no result, although the sample engine would have returned one.
\<close>

theorem validation_failure_witness:
  "ImageTargetSpec sampleBadImage \<in> set (buildTargets myappBad)
   \<and> specValidate (ImageTargetSpec sampleBadImage) = Some (Error ''bad image'')
   \<and> snd (OnChange sampleExternals (sampleOracle myappBad neverBuilt) 100 sampleController sampleState)
     = [Dispatch (BuildStartedAction ''myapp'' 100 [] ''triggered manually'' ''build:1''),
        Infof (''Initial Build '' @ [CHR 0xE2, CHR 0x80, CHR 0xA2] @ '' myapp''),
        Dispatch (BuildCompleteAction ''myapp'' ''build:1'' Map.empty (Some (Error ''bad image'')))]"
proof -
  have d: "\<not> disabledForTesting sampleController"
    by (simp add: sampleController_def)
  have t: "ImageTargetSpec sampleBadImage
             \<in> set (targets \<lparr>name = Name myappBad,
       targets = buildTargets myappBad,
       entryBuildStateSet = buildStateSet sampleExternals myappBad (buildTargets myappBad) neverBuilt,
       filesChanged = ConfigFilesThatCausedChange neverBuilt
                        @ FilesChanged sampleExternals (buildStateSet sampleExternals myappBad (buildTargets myappBad) neverBuilt),
       buildReason = ''triggered manually'',
       firstBuild = (\<not> StartedFirstBuild neverBuilt),
       spanID = ''build:1''\<rparr>)"
    by (simp add: buildTargets_myappBad)
  have v: "specValidate (ImageTargetSpec sampleBadImage) \<noteq> None"
    by (simp add: specValidate_def sampleBadImage_def)
  have first: "firstValidationError (buildTargets myappBad) = Some (Error ''bad image'')"
    by (simp add: firstValidationError_def buildTargets_myappBad specValidate_def
          sampleImage_def sampleBadImage_def sampleK8s_def)
  have nofiles: "FilesChanged sampleExternals
        (buildStateSet sampleExternals myappBad (buildTargets myappBad) neverBuilt) = []"
    by (rule FilesChanged_noPending) (simp add: neverBuilt_def)
  have nm: "Name myappBad = ''myapp''"
    by (simp add: myappBad_def myapp_def)
  have ms: "StartedFirstBuild neverBuilt = False" "ConfigFilesThatCausedChange neverBuilt = []"
    by (simp_all add: neverBuilt_def)
  have bad: "ImageTargetSpec sampleBadImage \<in> set (buildTargets myappBad)"
    by (simp add: buildTargets_myappBad)
  have err: "specValidate (ImageTargetSpec sampleBadImage) = Some (Error ''bad image'')"
    by (simp add: specValidate_def sampleBadImage_def)
  from validation_failure [OF d needsBuild_sample t v, of 100] first nofiles
  have "snd (OnChange sampleExternals (sampleOracle myappBad neverBuilt) 100 sampleController sampleState)
     = [Dispatch (BuildStartedAction ''myapp'' 100 [] ''triggered manually'' ''build:1''),
        Infof (''Initial Build '' @ [CHR 0xE2, CHR 0x80, CHR 0xA2] @ '' myapp''),
        Dispatch (BuildCompleteAction ''myapp'' ''build:1'' Map.empty (Some (Error ''bad image'')))]"
    by (auto simp: nm ms logBuildEntry_def delimiter_bytes)
  with bad err show ?thesis
    by simp
qed

subsection \<open>C5: no build slot\<close>

text \<open>
  C5. In every shared state with fewer than one available build slot \<^verbatim>\<open>needsBuild\<close>
  declines, whatever the selection oracle would return; this holds with equal
  started-build counters as with any others, and \<^verbatim>\<open>OnChange\<close> then dispatches nothing.
\<close>

theorem no_slots_declines:
  assumes "sint (AvailableBuildSlots st) < 1"
  shows "needsBuild x oracle c st = (c, emptyBuildEntry, False)
       \<and> OnChange x oracle now c st = (c, [])"
  using assms by (simp add: needsBuild_def OnChange_def)

text \<open>
  C5 on the sample: the counters agree and the oracle has a candidate, but no slot is
  free.
\<close>

theorem no_slots_declines_witness:
  "sint (AvailableBuildSlots (sampleState\<lparr>AvailableBuildSlots := 0\<rparr>)) < 1
   \<and> buildsStartedCount sampleController = StartedBuildCount (sampleState\<lparr>AvailableBuildSlots := 0\<rparr>)
   \<and> sampleOracle myapp neverBuilt (sampleState\<lparr>AvailableBuildSlots := 0\<rparr>) \<noteq> None
   \<and> needsBuild sampleExternals (sampleOracle myapp neverBuilt) sampleController
        (sampleState\<lparr>AvailableBuildSlots := 0\<rparr>)
       = (sampleController, emptyBuildEntry, False)
   \<and> OnChange sampleExternals (sampleOracle myapp neverBuilt) 100 sampleController
        (sampleState\<lparr>AvailableBuildSlots := 0\<rparr>)
       = (sampleController, [])"
proof -
  have h: "sint (AvailableBuildSlots (sampleState\<lparr>AvailableBuildSlots := 0\<rparr>)) < 1"
    by simp
  from no_slots_declines [OF h, of sampleExternals "sampleOracle myapp neverBuilt" sampleController 100]
  show ?thesis
    by (simp add: sampleController_def sampleState_def sampleOracle_def)
qed

subsection \<open>C6: the keys of the BuildStateSet\<close>

text \<open>
  C6. For every manifest, spec list and manifest state, the keys of the set built by
  \<^verbatim>\<open>buildStateSet\<close> are exactly the identities of the specs of type Image,
  DockerCompose or Local in the list; a spec of another type adds no key. The set is
  a map, so its keys are unique.
\<close>

theorem buildStateSet_keys:
  "dom (buildStateSet x manifest specs ms) = specID ` set (filter isBuildStateSpec specs)"
proof -
  obtain result a where
    f: "foldl (buildStateSetStep x manifest ms) (Map.empty, False) specs = (result, a)"
    by (cases "foldl (buildStateSetStep x manifest ms) (Map.empty, False) specs")
  have "dom result = specID ` set (filter isBuildStateSpec specs)"
    using foldl_step_dom [of x manifest ms "(Map.empty, False)" specs] f by simp
  moreover have "dom (\<lambda>k. map_option (\<lambda>v. WithNeedsForceUpdate v True) (result k)) = dom result"
    by (auto simp: dom_def)
  ultimately show ?thesis
    by (simp add: buildStateSet_def f)
qed

text \<open>
  C6 on the sample manifest: the image target is the only key, the Kubernetes target
  adds none.
\<close>

theorem buildStateSet_keys_witness:
  "dom (buildStateSet sampleExternals myapp (buildTargets myapp) builtTwoChanges) = {sampleImageID}
   \<and> filter isBuildStateSpec (buildTargets myapp) = [ImageTargetSpec sampleImage]"
  using buildStateSet_keys [of sampleExternals myapp "buildTargets myapp" builtTwoChanges]
  by (simp add: buildTargets_myapp sample_specs)

subsection \<open>C7: the changed-file lists\<close>

text \<open>
  C7. The changed-file list of every BuildState in a set built by \<^verbatim>\<open>buildStateSet\<close>
  is sorted ascending in the order of Go's strings and has no duplicates.
\<close>

theorem changed_files_sorted:
  assumes "buildStateSet x manifest specs ms tid = Some bs"
  shows "sorted (ChangedFiles bs) \<and> distinct (ChangedFiles bs)"
proof -
  from buildStateSet_value [OF assms] obtain spec where
    bs: "bs = (targetBuildState x manifest ms spec)
            \<lparr>NeedsForceUpdate :=
               (if \<not> NeedsRebuildFromCrash ms
                   \<and> \<not> (\<exists>s \<in> set specs. isBuildStateSpec s
                                         \<and> changedSinceLastBuild ms (specID s))
                then True
                else NeedsForceUpdate (targetBuildState x manifest ms spec))\<rparr>"
    by blast
  have files: "ChangedFiles bs =
      sort (map fst (DAList.impl_of (PendingFileChanges (BuildStatusOf ms (specID spec)))))"
    by (simp add: bs targetBuildState_files)
  have "distinct (map fst (DAList.impl_of (PendingFileChanges (BuildStatusOf ms (specID spec)))))"
    by (rule impl_of_distinct)
  then show ?thesis
    by (simp add: files)
qed

text \<open>
  C7 on the sample manifest: the pending changes are visited as \<^verbatim>\<open>z.go\<close>, \<^verbatim>\<open>a.go\<close>
  and stored as \<^verbatim>\<open>a.go\<close>, \<^verbatim>\<open>z.go\<close>.
\<close>

theorem changed_files_sorted_witness:
  "buildStateSet sampleExternals myapp (buildTargets myapp) builtTwoChanges sampleImageID =
       Some \<lparr>LastResult = MkBuildResult 0, ChangedFiles = [''a.go'', ''z.go''],
             RunningContainers = [MkContainerInfo 1], RunningContainerError = None,
             NeedsForceUpdate = False\<rparr>
   \<and> sorted [''a.go'', ''z.go''] \<and> distinct [''a.go'', ''z.go'']"
proof -
  have b: "buildStateSet sampleExternals myapp (buildTargets myapp) builtTwoChanges sampleImageID =
       Some \<lparr>LastResult = MkBuildResult 0, ChangedFiles = [''a.go'', ''z.go''],
             RunningContainers = [MkContainerInfo 1], RunningContainerError = None,
             NeedsForceUpdate = False\<rparr>"
    by (simp add: buildTargets_myapp buildStateSet_sample target_builtTwoChanges changed_samples)
  from changed_files_sorted [OF b] b show ?thesis
    by simp
qed

subsection \<open>C8: the span identifier\<close>

text \<open>
  C8. An admission increments the controller's counter, and the admitted entry
  carries the span identifier \<^verbatim>\<open>build:\<close> followed by the decimal form of the counter
  after the increment; the next admission made from the controller it returns carries
  the identifier of that counter plus one. The counter is a machine integer: below its
  greatest value the increment is the successor of the signed value. A call that
  declines returns the controller as it was. Hence in any run of calls on one
  controller, with any number of declined calls between the admissions, the entries
  admitted carry the identifiers of the starting counter plus one, plus two, and so
  on, in the order of their admission, and the counter ends at the starting counter
  plus the number of admissions.
\<close>

theorem admitted_span_id:
  "(needsBuild x oracle c st = (c1, e1, True) \<longrightarrow>
      buildsStartedCount c1 = buildsStartedCount c + 1
      \<and> spanID e1 = ''build:'' @ fmtInt (sint (buildsStartedCount c1))
      \<and> (sint (buildsStartedCount c) < 2 ^ 63 - 1
           \<longrightarrow> sint (buildsStartedCount c1) = sint (buildsStartedCount c) + 1)
      \<and> (\<forall>x' oracle' st' c2 e2.
            needsBuild x' oracle' c1 (st' :: 'b EngineState_scheme) = (c2, e2, True)
            \<longrightarrow> spanID e2 = ''build:'' @ fmtInt (sint (buildsStartedCount c1 + 1))))
   \<and> (needsBuild x oracle c st = (c1, e1, False) \<longrightarrow> c1 = c)
   \<and> (runNeedsBuild c (calls :: (Externals \<times> ('c EngineState_scheme \<Rightarrow> ManifestTarget option)
                                   \<times> 'c EngineState_scheme) list) = (cn, entries) \<longrightarrow>
        buildsStartedCount cn = buildsStartedCount c + of_nat (length entries)
        \<and> map spanID entries =
            map (\<lambda>k. ''build:'' @ fmtInt (sint (buildsStartedCount c + of_nat (Suc k))))
              [0..<length entries])"
proof (intro conjI impI)
  assume a: "needsBuild x oracle c st = (c1, e1, True)"
  from needsBuild_admitted [OF a]
  show 1: "buildsStartedCount c1 = buildsStartedCount c + 1"
    and "spanID e1 = ''build:'' @ fmtInt (sint (buildsStartedCount c1))"
    by simp_all
  show "\<forall>x' oracle' st' c2 e2.
          needsBuild x' oracle' c1 (st' :: 'b EngineState_scheme) = (c2, e2, True)
          \<longrightarrow> spanID e2 = ''build:'' @ fmtInt (sint (buildsStartedCount c1 + 1))"
    using needsBuild_admitted by fastforce
  assume "sint (buildsStartedCount c) < 2 ^ 63 - 1"
  then show "sint (buildsStartedCount c1) = sint (buildsStartedCount c) + 1"
    using sint_succ [of "buildsStartedCount c"] 1 by simp
next
  assume "needsBuild x oracle c st = (c1, e1, False)"
  from needsBuild_declined [OF this] show "c1 = c"
    by simp
next
  assume r: "runNeedsBuild c calls = (cn, entries)"
  from runNeedsBuild_spans [OF r]
  show "buildsStartedCount cn = buildsStartedCount c + of_nat (length entries)"
    and "map spanID entries =
            map (\<lambda>k. ''build:'' @ fmtInt (sint (buildsStartedCount c + of_nat (Suc k))))
              [0..<length entries]"
    by simp_all
qed

text \<open>
  C8 on the sample: two admissions carry \<^verbatim>\<open>build:1\<close> and \<^verbatim>\<open>build:2\<close>, made one
  right after the other as well as with a call between them that finds no candidate
  and leaves the controller as it was.
\<close>

theorem admitted_span_id_witness:
  "\<exists>c1 e1 c2 e2.
     needsBuild sampleExternals (sampleOracle myapp neverBuilt) sampleController sampleState
       = (c1, e1, True)
     \<and> needsBuild sampleExternals (sampleOracle myapp builtNoChanges) c1
         (sampleState\<lparr>StartedBuildCount := 1\<rparr>) = (c2, e2, True)
     \<and> buildsStartedCount c1 = 1 \<and> spanID e1 = ''build:1''
     \<and> buildsStartedCount c2 = 2 \<and> spanID e2 = ''build:2''
     \<and> needsBuild sampleExternals idleOracle c1 (sampleState\<lparr>StartedBuildCount := 1\<rparr>)
         = (c1, emptyBuildEntry, False)
     \<and> runNeedsBuild sampleController
          [(sampleExternals, sampleOracle myapp neverBuilt, sampleState),
           (sampleExternals, idleOracle, sampleState\<lparr>StartedBuildCount := 1\<rparr>),
           (sampleExternals, sampleOracle myapp builtNoChanges,
            sampleState\<lparr>StartedBuildCount := 1\<rparr>)]
         = (c2, [e1, e2])
     \<and> map spanID [e1, e2] = [''build:1'', ''build:2'']"
proof -
  obtain c1 e1 where r1:
    "needsBuild sampleExternals (sampleOracle myapp neverBuilt) sampleController sampleState
       = (c1, e1, True)"
    and c1: "c1 = sampleController\<lparr>buildsStartedCount := 1\<rparr>"
    by (simp add: needsBuild_sample)
  obtain c2 e2 where r2:
    "needsBuild sampleExternals (sampleOracle myapp builtNoChanges) c1
         (sampleState\<lparr>StartedBuildCount := 1\<rparr>) = (c2, e2, True)"
    and c2: "buildsStartedCount c2 = 2"
    by (simp add: c1 needsBuild_sample_at)
  have idle: "needsBuild sampleExternals idleOracle c1 (sampleState\<lparr>StartedBuildCount := 1\<rparr>)
         = (c1, emptyBuildEntry, False)"
    by (rule needsBuild_idle)
  have run: "runNeedsBuild sampleController
          [(sampleExternals, sampleOracle myapp neverBuilt, sampleState),
           (sampleExternals, idleOracle, sampleState\<lparr>StartedBuildCount := 1\<rparr>),
           (sampleExternals, sampleOracle myapp builtNoChanges,
            sampleState\<lparr>StartedBuildCount := 1\<rparr>)]
         = (c2, [e1, e2])"
    by (simp add: r1 idle r2)
  have n: "buildsStartedCount c1 = 1"
    by (simp add: c1)
  have z: "buildsStartedCount sampleController = 0"
    by (simp add: sampleController_def)
  note inst = admitted_span_id [of sampleExternals "sampleOracle myapp neverBuilt"
      sampleController sampleState c1 e1 _ c2 "[e1, e2]"]
  from inst r1
  have "spanID e1 = ''build:'' @ fmtInt (sint (buildsStartedCount c1))"
    by blast
  then have s1: "spanID e1 = ''build:1''"
    by (simp add: n fmtInt_small)
  from inst run
  have "map spanID [e1, e2] =
          map (\<lambda>k. ''build:'' @ fmtInt (sint (buildsStartedCount sampleController + of_nat (Suc k))))
            [0..<length [e1, e2]]"
    by blast
  then have spans: "map spanID [e1, e2] = [''build:1'', ''build:2'']"
    by (simp add: z fmtInt_small upt_rec)
  then have s2: "spanID e2 = ''build:2''"
    by simp
  show ?thesis
    by (rule exI [of _ c1], rule exI [of _ e1], rule exI [of _ c2], rule exI [of _ e2])
       (intro conjI r1 r2 n c2 s1 s2 idle run spans)
qed

subsection \<open>C9: the summary log line\<close>

text \<open>
  C9. For every admitted build, \<^verbatim>\<open>OnChange\<close> dispatches the start and then logs one
  summary line, before anything else of the build: \<^verbatim>\<open>Initial Build\<close>, the delimiter
  and the name on a first build; else, with N > 0 changed files, N, \<^verbatim>\<open>File\<close> for one
  file and \<^verbatim>\<open>Files\<close> for more, \<^verbatim>\<open>Changed:\<close>, the formatted list, the delimiter and the
  name; else the build reason, the delimiter and the name. No other line is logged by
  the controller.
\<close>

theorem summary_log_line:
  assumes "\<not> disabledForTesting c" and "needsBuild x oracle c st = (c', entry, True)"
  shows "\<exists>rest.
     snd (OnChange x oracle now c st) =
       Dispatch (BuildStartedAction (name entry) now (filesChanged entry)
                   (buildReason entry) (spanID entry))
       # Infof
           (if firstBuild entry then ''Initial Build '' @ delimiter @ '' '' @ name entry
            else if 0 < length (filesChanged entry) then
              fmtInt (int (length (filesChanged entry)))
                @ (if length (filesChanged entry) = 1 then '' File'' else '' Files'')
                @ '' Changed: '' @ FormatFileChangeList x (filesChanged entry)
                @ '' '' @ delimiter @ '' '' @ name entry
            else buildReason entry @ '' '' @ delimiter @ '' '' @ name entry)
       # rest
     \<and> \<not> list_ex isInfof rest"
proof -
  have line: "logBuildEntry x entry =
      (if firstBuild entry then ''Initial Build '' @ delimiter @ '' '' @ name entry
       else if 0 < length (filesChanged entry) then
         fmtInt (int (length (filesChanged entry)))
           @ (if length (filesChanged entry) = 1 then '' File'' else '' Files'')
           @ '' Changed: '' @ FormatFileChangeList x (filesChanged entry)
           @ '' '' @ delimiter @ '' '' @ name entry
       else buildReason entry @ '' '' @ delimiter @ '' '' @ name entry)"
    by (cases "filesChanged entry" rule: list.exhaust; cases "tl (filesChanged entry)")
       (auto simp: logBuildEntry_def Let_def)
  show ?thesis
    unfolding OnChange_admitted [OF assms] buildTask_events line
    by (cases "validateTargets (targets entry)") simp_all
qed

text \<open>
  C9 on the sample manifest: never built; built and triggered by hand with no file
  changed; built with two files changed.
\<close>

theorem summary_log_line_witness:
  "snd (OnChange sampleExternals (sampleOracle myapp neverBuilt) 100 sampleController sampleState) ! 1
     = Infof (''Initial Build '' @ [CHR 0xE2, CHR 0x80, CHR 0xA2] @ '' myapp'')
   \<and> snd (OnChange sampleExternals (sampleOracle myapp builtNoChanges) 100 sampleController sampleState) ! 1
     = Infof (''triggered manually '' @ [CHR 0xE2, CHR 0x80, CHR 0xA2] @ '' myapp'')
   \<and> snd (OnChange sampleExternals (sampleOracle myapp builtTwoChanges) 100 sampleController sampleState) ! 1
     = Infof (''2 Files Changed: a.go, z.go '' @ [CHR 0xE2, CHR 0x80, CHR 0xA2] @ '' myapp'')"
proof -
  have d: "\<not> disabledForTesting sampleController"
    by (simp add: sampleController_def)
  have files: "FilesChanged sampleExternals
                 (buildStateSet sampleExternals myapp (buildTargets myapp) builtTwoChanges)
               = [''a.go'', ''z.go'']"
    by (simp add: FilesChanged_sample buildTargets_myapp buildStateSet_sample
          target_builtTwoChanges)
  have nofiles: "\<And>ms. BuildStatusOf ms = noPending \<Longrightarrow>
      FilesChanged sampleExternals
        (buildStateSet sampleExternals myapp (buildTargets myapp) ms) = []"
    by (rule FilesChanged_noPending)
  have fmt: "FormatFileChangeList sampleExternals [''a.go'', ''z.go''] = ''a.go, z.go''"
    by (simp add: sampleExternals_def)
  have nm: "Name myapp = ''myapp''"
    by (simp add: myapp_def)
  have st: "StartedFirstBuild neverBuilt = False" "StartedFirstBuild builtNoChanges = True"
      "StartedFirstBuild builtTwoChanges = True"
      "ConfigFilesThatCausedChange neverBuilt = []"
      "ConfigFilesThatCausedChange builtNoChanges = []"
      "ConfigFilesThatCausedChange builtTwoChanges = []"
      "BuildStatusOf builtNoChanges = noPending"
    by (simp_all add: neverBuilt_def builtNoChanges_def builtTwoChanges_def)
  from summary_log_line [OF d needsBuild_sample, of sampleExternals myapp neverBuilt 100]
  have a: "snd (OnChange sampleExternals (sampleOracle myapp neverBuilt) 100 sampleController sampleState) ! 1
     = Infof (''Initial Build '' @ [CHR 0xE2, CHR 0x80, CHR 0xA2] @ '' myapp'')"
    by (auto simp: nm st delimiter_bytes)
  from summary_log_line [OF d needsBuild_sample, of sampleExternals myapp builtNoChanges 100]
  have c: "snd (OnChange sampleExternals (sampleOracle myapp builtNoChanges) 100 sampleController sampleState) ! 1
     = Infof (''triggered manually '' @ [CHR 0xE2, CHR 0x80, CHR 0xA2] @ '' myapp'')"
    by (auto simp: nm st nofiles delimiter_bytes)
  from summary_log_line [OF d needsBuild_sample, of sampleExternals myapp builtTwoChanges 100]
  have b: "snd (OnChange sampleExternals (sampleOracle myapp builtTwoChanges) 100 sampleController sampleState) ! 1
     = Infof (''2 Files Changed: a.go, z.go '' @ [CHR 0xE2, CHR 0x80, CHR 0xA2] @ '' myapp'')"
    by (auto simp: nm st files fmt fmtInt_small delimiter_bytes)
  from a b c show ?thesis by simp
qed

subsection \<open>C10: the target list of a manifest\<close>

text \<open>
  C10. For every manifest, \<^verbatim>\<open>buildTargets\<close> returns all image targets, in order,
  followed by at most one deploy target: the Docker Compose target when \<^verbatim>\<open>IsDC\<close> holds,
  else the Kubernetes target when \<^verbatim>\<open>IsK8s\<close> holds, else the local target when
  \<^verbatim>\<open>IsLocal\<close> holds; a manifest of none of the three variants yields its image targets
  only.
\<close>

theorem buildTargets_shape:
  "buildTargets manifest =
     map ImageTargetSpec (ImageTargets manifest)
       @ (if IsDC manifest then [DockerComposeTargetSpec (DockerComposeTarget manifest)]
          else if IsK8s manifest then [K8sTargetSpec (K8sTarget manifest)]
          else if IsLocal manifest then [LocalTargetSpec (LocalTarget manifest)]
          else [])"
  by (simp add: buildTargets_def buildTargets_images)

text \<open>
  C10 on the sample manifest: the Kubernetes manifest yields its image and its
  Kubernetes target; with all three tests passing the Docker Compose target wins; with
  none passing only the image remains.
\<close>

theorem buildTargets_shape_witness:
  "buildTargets myapp = [ImageTargetSpec sampleImage, K8sTargetSpec sampleK8s]
   \<and> buildTargets (myapp\<lparr>IsDC := True, IsLocal := True\<rparr>)
       = [ImageTargetSpec sampleImage, DockerComposeTargetSpec zeroTarget]
   \<and> buildTargets (myapp\<lparr>IsK8s := False\<rparr>) = [ImageTargetSpec sampleImage]"
  using buildTargets_shape [of myapp]
    buildTargets_shape [of "myapp\<lparr>IsDC := True, IsLocal := True\<rparr>"]
    buildTargets_shape [of "myapp\<lparr>IsK8s := False\<rparr>"]
  by (simp add: myapp_def)

end
